theory Spec2Isabelle
  imports Complex_Main "HOL-Library.Word" "HOL-Library.Sublist"
begin

section \<open>JavaScript strings\<close>

text \<open>
  A JavaScript string is a sequence of 16-bit UTF-16 code units; \<open>length\<close>,
  \<open>substring\<close> and a regular expression without the \<open>u\<close> flag all work on code units.
  \<open>str\<close> embeds an ASCII literal of the source.
\<close>

type_synonym js_string = "16 word list"

definition str :: "string \<Rightarrow> js_string" where
  "str s = map of_char s"

section \<open>JavaScript values and exceptions\<close>

text \<open>
  The values \<open>JSON.parse\<close> can produce, and \<open>undefined\<close> for a missing property. An
  object holds its own properties as an association list (the first binding of a key
  is the property). A number is kept as a rational: the code only tests numbers for
  truthiness, where zero is falsy and every other number (also the infinite value that
  an overflowing literal parses to) is truthy.
\<close>

datatype js_value =
    JUndefined
  | JNull
  | JBool bool
  | JNum rat
  | JStr js_string
  | JArr "js_value list"
  | JObj "(js_string \<times> js_value) list"

text \<open>A thrown error: its \<open>name\<close> and its \<open>message\<close>.\<close>

datatype js_error = JsError (err_name: js_string) (err_message: js_string)

definition TypeError :: "js_string \<Rightarrow> js_error" where
  "TypeError m = JsError (str ''TypeError'') m"

fun truthy :: "js_value \<Rightarrow> bool" where
  "truthy JUndefined = False"
| "truthy JNull = False"
| "truthy (JBool b) = b"
| "truthy (JNum n) = (n \<noteq> 0)"
| "truthy (JStr s) = (s \<noteq> [])"
| "truthy (JArr xs) = True"
| "truthy (JObj kvs) = True"

definition own_prop :: "(js_string \<times> js_value) list \<Rightarrow> string \<Rightarrow> js_value" where
  "own_prop kvs k = (case map_of kvs (str k) of None \<Rightarrow> JUndefined | Some v \<Rightarrow> v)"

text \<open>
  The message of the TypeError that V8 (the engine of the extension's browser) throws
  when property \<open>k\<close> is read from \<open>undefined\<close> or \<open>null\<close>; \<open>0x27\<close> is the apostrophe.
\<close>

definition cannot_read :: "string \<Rightarrow> string \<Rightarrow> js_error" where
  "cannot_read what k =
     TypeError (str ''Cannot read properties of '' @ str what @ str '' (reading '' @ [0x27]
                @ str k @ [0x27] @ str '')'')"

text \<open>
  \<open>v.k\<close> for the property names the code reads (\<open>choices\<close>, \<open>message\<close>, \<open>content\<close>,
  \<open>error\<close>), none of which a prototype provides: reading a property of \<open>undefined\<close> or
  \<open>null\<close> throws, an object gives its own property, every other value gives
  \<open>undefined\<close>.
\<close>

fun get_prop :: "js_value \<Rightarrow> string \<Rightarrow> js_error + js_value" where
  "get_prop JUndefined k = Inl (cannot_read ''undefined'' k)"
| "get_prop JNull k = Inl (cannot_read ''null'' k)"
| "get_prop (JObj kvs) k = Inr (own_prop kvs k)"
| "get_prop v k = Inr JUndefined"

text \<open>\<open>v[0]\<close>: the first element of an array, the first code unit of a string.\<close>

fun index0 :: "js_value \<Rightarrow> js_error + js_value" where
  "index0 JUndefined = Inl (cannot_read ''undefined'' ''0'')"
| "index0 JNull = Inl (cannot_read ''null'' ''0'')"
| "index0 (JArr xs) = Inr (case xs of [] \<Rightarrow> JUndefined | x # _ \<Rightarrow> x)"
| "index0 (JStr s) = Inr (case s of [] \<Rightarrow> JUndefined | c # _ \<Rightarrow> JStr [c])"
| "index0 (JObj kvs) = Inr (own_prop kvs ''0'')"
| "index0 v = Inr JUndefined"

text \<open>
  The white space of \<open>\s\<close> and of \<open>String.prototype.trim\<close>: tab, line feed, vertical
  tab, form feed, carriage return, space, no-break space, U+1680, U+2000 to U+200A,
  the line and paragraph separators, U+202F, U+205F, U+3000 and the byte order mark.
\<close>

definition is_space :: "16 word \<Rightarrow> bool" where
  "is_space c =
     (c \<in> set [0x09, 0x0A, 0x0B, 0x0C, 0x0D, 0x20, 0xA0, 0x1680, 0x2028, 0x2029, 0x202F,
               0x205F, 0x3000, 0xFEFF]
      \<or> (0x2000 \<le> c \<and> c \<le> 0x200A))"

definition trim :: "js_string \<Rightarrow> js_string" where
  "trim s = rev (dropWhile is_space (rev (dropWhile is_space s)))"

text \<open>
  \<open>v.trim()\<close>: only a string has the method; on \<open>undefined\<close> and \<open>null\<close> the property
  read throws, on any other value of a JSON document \<open>trim\<close> is not a function.
\<close>

fun call_trim :: "js_value \<Rightarrow> js_error + js_string" where
  "call_trim (JStr s) = Inr (trim s)"
| "call_trim JUndefined = Inl (cannot_read ''undefined'' ''trim'')"
| "call_trim JNull = Inl (cannot_read ''null'' ''trim'')"
| "call_trim v =
     Inl (TypeError (str ''data.choices[0].message.content.trim is not a function''))"

text \<open>\<open>a || b\<close> on an optional string: \<open>undefined\<close> and the empty string are falsy.\<close>

definition or_default :: "js_string option \<Rightarrow> js_string \<Rightarrow> js_string" where
  "or_default a b = (case a of None \<Rightarrow> b | Some s \<Rightarrow> if s = [] then b else s)"

section \<open>content.js: extraction\<close>

text \<open>
  \<open>content\<close> is the object \<open>generateSummary\<close> reads (\<open>title\<close>, \<open>text\<close>, \<open>url\<close>); the reply
  of the content script extends it with \<open>success\<close> and \<open>error\<close>.
\<close>

record content =
  title :: js_string
  text' :: js_string
  url :: js_string

record extracted_content = content +
  extract_success :: bool
  extract_error :: "js_string option"

text \<open>
  The page as the content script sees it. \<open>selector_matches\<close> lists, for each selector
  that matches, the first matching element (\<open>document.querySelector\<close>). Of an element
  the script reads the \<open>content\<close> attribute (of a \<open>meta\<close> element), \<open>textContent\<close>, and,
  of its clone once \<open>removeExcludedElements\<close> has taken the excluded elements out, the
  \<open>innerText\<close> and \<open>textContent\<close>; the model takes those strings as given.
\<close>

record element =
  el_content :: js_string
  el_textContent :: js_string
  clone_innerText :: js_string
  clone_textContent :: js_string

record document =
  selector_matches :: "(string \<times> element) list"
  doc_title :: js_string
  doc_body :: "element option"
  location_href :: js_string

definition querySelector :: "document \<Rightarrow> string \<Rightarrow> element option" where
  "querySelector d sel = map_of (selector_matches d) sel"

definition ARTICLE_SELECTORS :: "string list" where
  \<open>ARTICLE_SELECTORS =
     [''article'', ''[role="article"]'', ''main'', ''[role="main"]'', ''.post-content'',
      ''.article-content'', ''.article-body'', ''.entry-content'', ''.content-body'',
      ''.story-body'']\<close>

definition MAX_CONTENT_LENGTH :: nat where
  "MAX_CONTENT_LENGTH = 10000"

fun first_match :: "document \<Rightarrow> string list \<Rightarrow> element option" where
  "first_match d [] = None"
| "first_match d (sel # sels) =
     (case querySelector d sel of Some el \<Rightarrow> Some el | None \<Rightarrow> first_match d sels)"

definition findArticleContainer :: "document \<Rightarrow> element option" where
  "findArticleContainer d = first_match d ARTICLE_SELECTORS"

definition extractTitle :: "document \<Rightarrow> js_string" where
  \<open>extractTitle d =
     (let ogTitle = querySelector d ''meta[property="og:title"]'';
          articleH1 = querySelector d ''article h1, main h1, [role="main"] h1''
      in case ogTitle of
           Some m \<Rightarrow>
             if el_content m \<noteq> [] then trim (el_content m)
             else (case articleH1 of
                     Some h \<Rightarrow> if el_textContent h \<noteq> [] then trim (el_textContent h)
                               else trim (doc_title d)
                   | None \<Rightarrow> trim (doc_title d))
         | None \<Rightarrow>
             (case articleH1 of
                Some h \<Rightarrow> if el_textContent h \<noteq> [] then trim (el_textContent h)
                          else trim (doc_title d)
              | None \<Rightarrow> trim (doc_title d)))\<close>

text \<open>\<open>.replace(/\s+/g, ' ')\<close>: every maximal run of white space becomes one space.\<close>

function collapse_spaces :: "js_string \<Rightarrow> js_string" where
  "collapse_spaces [] = []"
| "collapse_spaces (c # cs) =
     (if is_space c then 0x20 # collapse_spaces (dropWhile is_space cs)
      else c # collapse_spaces cs)"
  by pat_completeness auto
termination
  by (relation "measure length") (auto simp: length_dropWhile_le less_Suc_eq_le)

text \<open>
  \<open>.replace(/\n\s*\n/g, '\n')\<close>: at a line feed, the greedy \<open>\s*\<close> takes the whole run
  of white space that follows and backtracks to the last line feed in it; the match,
  from the first line feed to that last one, becomes one line feed, and the scan goes
  on behind it. A line feed with no other line feed in the run behind it stays.
\<close>

definition after_last_newline :: "js_string \<Rightarrow> js_string" where
  "after_last_newline run = rev (takeWhile (\<lambda>c. c \<noteq> 0x0A) (rev run))"

function collapse_blank_lines :: "js_string \<Rightarrow> js_string" where
  "collapse_blank_lines [] = []"
| "collapse_blank_lines (c # cs) =
     (if c = 0x0A \<and> 0x0A \<in> set (takeWhile is_space cs)
      then 0x0A # collapse_blank_lines
                    (after_last_newline (takeWhile is_space cs) @ dropWhile is_space cs)
      else c # collapse_blank_lines cs)"
  by pat_completeness auto
termination
proof (relation "measure length")
  show "wf (measure length)" by simp
next
  fix c :: "16 word" and cs :: js_string
  have "length (after_last_newline (takeWhile is_space cs)) \<le> length (takeWhile is_space cs)"
    unfolding after_last_newline_def using length_takeWhile_le [of _ "rev (takeWhile is_space cs)"]
    by simp
  moreover have "length (takeWhile is_space cs) + length (dropWhile is_space cs) = length cs"
    by (metis length_append takeWhile_dropWhile_id)
  ultimately show
    "(after_last_newline (takeWhile is_space cs) @ dropWhile is_space cs, c # cs) \<in> measure length"
    by simp
next
  fix c :: "16 word" and cs :: js_string
  show "(cs, c # cs) \<in> measure length" by simp
qed

definition clean_text :: "js_string \<Rightarrow> js_string" where
  "clean_text t = trim (collapse_blank_lines (collapse_spaces t))"

text \<open>
  The container whose clone is read: the article container, else \<open>document.body\<close>; and
  \<open>clone.innerText || clone.textContent || ''\<close>.
\<close>

definition page_container :: "document \<Rightarrow> element option" where
  "page_container d =
     (case findArticleContainer d of Some el \<Rightarrow> Some el | None \<Rightarrow> doc_body d)"

definition raw_text :: "element \<Rightarrow> js_string" where
  "raw_text el =
     (if clone_innerText el \<noteq> [] then clone_innerText el else clone_textContent el)"

text \<open>
  \<open>extractArticleContent\<close>. With no article container and no \<open>document.body\<close> the call
  \<open>container.cloneNode\<close> throws, and the \<open>catch\<close> answers with \<open>document.title || ''\<close>.
\<close>

definition extractArticleContent :: "document \<Rightarrow> extracted_content" where
  "extractArticleContent d =
     (let title0 = extractTitle d; url0 = location_href d
      in case page_container d of
           None \<Rightarrow>
             \<lparr>title = doc_title d, text' = [], url = location_href d, extract_success = False,
              extract_error = Some (str ''Extraction failed: ''
                @ err_message (cannot_read ''null'' ''cloneNode''))\<rparr>
         | Some el \<Rightarrow>
             (let cleaned = clean_text (raw_text el)
              in if cleaned = [] \<or> length cleaned < 50
                 then \<lparr>title = title0, text' = [], url = url0, extract_success = False,
                       extract_error = Some (str ''No content found to summarize'')\<rparr>
                 else \<lparr>title = title0,
                       text' = (if length cleaned > MAX_CONTENT_LENGTH
                                then take MAX_CONTENT_LENGTH cleaned else cleaned),
                       url = url0, extract_success = True, extract_error = None\<rparr>))"

section \<open>background.js: the completion request\<close>

text \<open>
  The result object of the summarizer. \<open>result_title\<close> and \<open>result_url\<close> are \<open>None\<close> where
  the object has no such property; \<open>error\<close> is \<open>JUndefined\<close> where no error is set (it is
  a JavaScript value because \<open>handleApiError\<close> can pass on whatever the provider sent
  as \<open>error.message\<close>).
\<close>

record summary_result =
  summary :: js_string
  result_title :: "js_string option"
  result_url :: "js_string option"
  success :: bool
  error :: js_value

definition failure :: "js_value \<Rightarrow> summary_result" where
  "failure e =
     \<lparr>summary = [], result_title = None, result_url = None, success = False, error = e\<rparr>"

text \<open>
  A property read \<open>table[key]\<close> on an object literal with string values: the own
  property, else the member of that name inherited from \<open>Object.prototype\<close> (a function
  or, for \<open>__proto__\<close>, the prototype object itself), else \<open>undefined\<close> (\<open>None\<close>).
\<close>

datatype js_member = StrVal js_string | Inherited js_string

definition object_prototype_members :: "string list" where
  "object_prototype_members =
     [''constructor'', ''__proto__'', ''hasOwnProperty'', ''isPrototypeOf'',
      ''propertyIsEnumerable'', ''toLocaleString'', ''toString'', ''valueOf'',
      ''__defineGetter__'', ''__defineSetter__'', ''__lookupGetter__'', ''__lookupSetter__'']"

definition lookup_member :: "(string \<times> string) list \<Rightarrow> js_string \<Rightarrow> js_member option" where
  "lookup_member table k =
     (case map_of (map (\<lambda>(a, b). (str a, str b)) table) k of
        Some v \<Rightarrow> Some (StrVal v)
      | None \<Rightarrow> if k \<in> set (map str object_prototype_members) then Some (Inherited k) else None)"

text \<open>\<open>a || b\<close> on such a read: a function or object is truthy, a string unless empty.\<close>

definition member_or :: "js_member option \<Rightarrow> js_member \<Rightarrow> js_member" where
  "member_or a b =
     (case a of
        None \<Rightarrow> b
      | Some (StrVal s) \<Rightarrow> if s = [] then b else StrVal s
      | Some (Inherited k) \<Rightarrow> Inherited k)"

definition API_ENDPOINTS :: "(string \<times> string) list" where
  "API_ENDPOINTS =
     [(''openai'', ''https://api.openai.com/v1/chat/completions''),
      (''openrouter'', ''https://openrouter.ai/api/v1/chat/completions'')]"

definition DEFAULT_MODELS :: "(string \<times> string) list" where
  "DEFAULT_MODELS =
     [(''openai'', ''gpt-3.5-turbo''), (''openrouter'', ''openai/gpt-3.5-turbo'')]"

definition MAX_TOKENS :: nat where
  "MAX_TOKENS = 300"

definition SYSTEM_PROMPT :: js_string where
  "SYSTEM_PROMPT =
     str ''Summarize the following article in 3-5 concise sentences. Focus on the main points and key takeaways.''"

text \<open>
  The request handed to \<open>fetch\<close>: the URL, the headers in the order they are set, and
  the fields of \<open>requestBody\<close>. A message is its role and its content.
\<close>

record request =
  req_url :: js_member
  req_headers :: "(js_string \<times> js_string) list"
  req_model :: js_member
  req_messages :: "(js_string \<times> js_string) list"
  req_max_tokens :: nat
  req_temperature :: rat

text \<open>\<open>title.replace(/[^\x00-\x7F]/g, '')\<close>: every code unit above 0x7F is dropped.\<close>

definition sanitize :: "js_string \<Rightarrow> js_string" where
  "sanitize s = filter (\<lambda>c. c \<le> 0x7F) s"

definition user_message :: "'a content_scheme \<Rightarrow> js_string" where
  "user_message c =
     (let sanitizedTitle = sanitize (title c); sanitizedText = text' c
      in str ''Title: '' @ sanitizedTitle @ [0x0A, 0x0A] @ str ''Content:'' @ [0x0A]
         @ sanitizedText)"

text \<open>
  The part of \<open>generateSummary\<close> before the \<open>try\<close>. The provider is \<open>None\<close> when the
  argument is \<open>undefined\<close>, which the default parameter turns into \<open>'openai'\<close>.
\<close>

definition build_request :: "'a content_scheme \<Rightarrow> js_string \<Rightarrow> js_string option \<Rightarrow> request" where
  "build_request c apiKey provider_arg =
     (let provider = (case provider_arg of None \<Rightarrow> str ''openai'' | Some p \<Rightarrow> p);
          userMessage = user_message c;
          apiUrl = member_or (lookup_member API_ENDPOINTS provider)
                     (StrVal (str ''https://api.openai.com/v1/chat/completions''));
          model = member_or (lookup_member DEFAULT_MODELS provider)
                    (StrVal (str ''gpt-3.5-turbo''));
          headers = [(str ''Content-Type'', str ''application/json''),
                     (str ''Authorization'', str ''Bearer '' @ apiKey)]
                    @ (if provider = str ''openrouter''
                       then [(str ''HTTP-Referer'', str ''https://github.com/ai-article-summarizer''),
                             (str ''X-Title'', str ''AI-Article-Summarizer'')]
                       else [])
      in \<lparr>req_url = apiUrl, req_headers = headers, req_model = model,
          req_messages = [(str ''system'', SYSTEM_PROMPT), (str ''user'', userMessage)],
          req_max_tokens = MAX_TOKENS, req_temperature = 1 / 2\<rparr>)"

text \<open>
  What \<open>await fetch(...)\<close> gives: it throws (an \<open>AbortError\<close> when the 30 second timer
  aborts the request, any other error when the transport fails), or it resolves to a
  response. \<open>resp_json\<close> is the outcome of \<open>response.json()\<close>: the parsed body, or the
  error it rejects with. \<open>response.ok\<close> is true for the statuses 200 to 299.
\<close>

record response =
  status :: nat
  resp_json :: "js_error + js_value"

datatype fetch_outcome = Threw js_error | Responded response

definition response_ok :: "response \<Rightarrow> bool" where
  "response_ok r = (200 \<le> status r \<and> status r \<le> 299)"

text \<open>\<open>errorData.error?.message\<close>.\<close>

definition provider_message :: "js_value \<Rightarrow> js_error + js_value" where
  "provider_message errorData =
     (case get_prop errorData ''error'' of
        Inl e \<Rightarrow> Inl e
      | Inr JUndefined \<Rightarrow> Inr JUndefined
      | Inr JNull \<Rightarrow> Inr JUndefined
      | Inr v \<Rightarrow> get_prop v ''message'')"

definition handleApiError :: "nat \<Rightarrow> js_value \<Rightarrow> js_error + summary_result" where
  "handleApiError st errorData =
     (if st = 401 then Inr (failure (JStr (str ''Invalid API key. Please check your settings.'')))
      else if st = 429 then Inr (failure (JStr (str ''Rate limited. Please try again in a moment.'')))
      else if st = 500 \<or> st = 502 \<or> st = 503
      then Inr (failure (JStr (str ''OpenAI service is temporarily unavailable. Please try again.'')))
      else (case provider_message errorData of
              Inl e \<Rightarrow> Inl e
            | Inr m \<Rightarrow>
                Inr (failure (if truthy m then m
                              else JStr (str ''An error occurred. Please try again.'')))))"

definition could_not_generate :: summary_result where
  "could_not_generate = failure (JStr (str ''Could not generate summary. Please try again.''))"

text \<open>
  The successful branch of the \<open>try\<close> block, from the parsed body on: the three presence
  checks, then \<open>data.choices[0].message.content.trim()\<close> and the emptiness check.
\<close>

definition read_completion :: "js_value \<Rightarrow> js_error + summary_result" where
  "read_completion data =
     (case get_prop data ''choices'' of
        Inl e \<Rightarrow> Inl e
      | Inr choices \<Rightarrow>
          if \<not> truthy choices then Inr could_not_generate
          else (case index0 choices of
                  Inl e \<Rightarrow> Inl e
                | Inr choice \<Rightarrow>
                    if \<not> truthy choice then Inr could_not_generate
                    else (case get_prop choice ''message'' of
                            Inl e \<Rightarrow> Inl e
                          | Inr msg \<Rightarrow>
                              if \<not> truthy msg then Inr could_not_generate
                              else (case get_prop msg ''content'' of
                                      Inl e \<Rightarrow> Inl e
                                    | Inr c \<Rightarrow>
                                        (case call_trim c of
                                           Inl e \<Rightarrow> Inl e
                                         | Inr s \<Rightarrow>
                                             if s = [] then Inr could_not_generate
                                             else Inr \<lparr>summary = s, result_title = None,
                                                       result_url = None, success = True,
                                                       error = JUndefined\<rparr>)))))"

text \<open>The \<open>try\<close> block after \<open>fetch\<close>: \<open>Inl\<close> is an error on its way to the \<open>catch\<close>.\<close>

definition after_fetch :: "fetch_outcome \<Rightarrow> js_error + summary_result" where
  "after_fetch outcome =
     (case outcome of
        Threw e \<Rightarrow> Inl e
      | Responded r \<Rightarrow>
          if \<not> response_ok r
          then (let errorData = (case resp_json r of Inl _ \<Rightarrow> JObj [] | Inr d \<Rightarrow> d)
                in handleApiError (status r) errorData)
          else (case resp_json r of
                  Inl e \<Rightarrow> Inl e
                | Inr data \<Rightarrow> read_completion data))"

definition catch_error :: "js_error \<Rightarrow> summary_result" where
  "catch_error err =
     (if err_name err = str ''AbortError''
      then failure (JStr (str ''Request timed out. Please try again.''))
      else failure (JStr (str ''Network error: '' @ err_message err
                          @ str ''. Please reload the extension and try again.'')))"

text \<open>
  \<open>generateSummary\<close> issues exactly one request; the result comes with the list of the
  requests made.
\<close>

definition generateSummary ::
  "'a content_scheme \<Rightarrow> js_string \<Rightarrow> js_string option \<Rightarrow> fetch_outcome \<Rightarrow>
   summary_result \<times> request list" where
  "generateSummary c apiKey provider outcome =
     (let req = build_request c apiKey provider
      in (case after_fetch outcome of
            Inr res \<Rightarrow> res
          | Inl err \<Rightarrow> catch_error err,
          [req]))"

section \<open>background.js: the request handlers\<close>

text \<open>
  What one request finds around it (the tab id that the handlers pass along is that of
  the first active tab, so the model leaves it out): the tabs that \<open>chrome.tabs.query\<close> reports as
  active, the two keys of \<open>chrome.storage.sync\<close>, the outcome of reading the selection
  in the tab (\<open>result.result\<close>, \<open>None\<close> for \<open>undefined\<close> or \<open>null\<close>), the outcome of
  \<open>chrome.tabs.get\<close>, the page the content script is injected into (or the error that the
  injection or the message to it fails with), and the outcome of the one \<open>fetch\<close> the request may make.
\<close>

record tab =
  tab_id :: nat
  tab_title :: "js_string option"
  tab_url :: "js_string option"

record world =
  active_tabs :: "tab list"
  stored_apiKey :: "js_string option"
  stored_apiProvider :: "js_string option"
  selection :: "js_error + js_string option"
  tabs_get :: "js_error + tab"
  page :: "js_error + document"
  fetch :: fetch_outcome

text \<open>\<open>result.apiKey || null\<close> and \<open>result.apiProvider || 'openai'\<close>.\<close>

definition getApiKey :: "world \<Rightarrow> js_string option" where
  "getApiKey w =
     (case stored_apiKey w of None \<Rightarrow> None | Some k \<Rightarrow> if k = [] then None else Some k)"

definition getApiProvider :: "world \<Rightarrow> js_string" where
  "getApiProvider w = or_default (stored_apiProvider w) (str ''openai'')"

definition extractContentFromTab :: "world \<Rightarrow> extracted_content" where
  "extractContentFromTab w =
     (case page w of
        Inr d \<Rightarrow> extractArticleContent d
      | Inl err \<Rightarrow>
          \<lparr>title = [], text' = [], url = [], extract_success = False,
           extract_error = Some (str ''Failed to extract content: '' @ err_message err)\<rparr>)"

definition not_configured :: js_value where
  "not_configured = JStr (str ''API key not configured. Please add your API key in settings.'')"

definition handleSummarizeRequest :: "world \<Rightarrow> summary_result \<times> request list" where
  "handleSummarizeRequest w =
     (let apiKey = getApiKey w; provider = getApiProvider w
      in case apiKey of
           None \<Rightarrow>
             (\<lparr>summary = [], result_title = Some [], result_url = Some [], success = False,
               error = not_configured\<rparr>, [])
         | Some key \<Rightarrow>
             (let c = extractContentFromTab w
              in if \<not> extract_success c
                 then (\<lparr>summary = [], result_title = Some (title c), result_url = Some (url c),
                        success = False,
                        error = JStr (or_default (extract_error c)
                                        (str ''Failed to extract content from page.''))\<rparr>, [])
                 else (case generateSummary c key (Some provider) (fetch w) of
                         (result, calls) \<Rightarrow>
                           (\<lparr>summary = summary result, result_title = Some (title c),
                             result_url = Some (url c), success = success result,
                             error = error result\<rparr>, calls))))"

definition summarizeSelectedText :: "js_string \<Rightarrow> world \<Rightarrow> summary_result \<times> request list" where
  "summarizeSelectedText selectedText w =
     (let apiKey = getApiKey w; provider = getApiProvider w
      in case apiKey of
           None \<Rightarrow> (failure not_configured, [])
         | Some key \<Rightarrow>
             (let pageTitle = (case tabs_get w of
                                 Inl _ \<Rightarrow> str ''Selected Text''
                               | Inr t \<Rightarrow> or_default (tab_title t) (str ''Selected Text''));
                  c = \<lparr>title = pageTitle, text' = take 10000 selectedText, url = []\<rparr>
              in generateSummary c key (Some provider) (fetch w)))"

text \<open>
  The \<open>onMessage\<close> listener: the payload of the response it sends (\<open>None\<close> for a message
  type it does not answer) and the requests made on the way.
\<close>

datatype message = GENERATE_SUMMARY | SUMMARIZE_SELECTION | OtherMessage

definition no_active_tab :: summary_result where
  "no_active_tab = failure (JStr (str ''No active tab found.''))"

fun onMessage :: "message \<Rightarrow> world \<Rightarrow> summary_result option \<times> request list" where
  "onMessage GENERATE_SUMMARY w =
     (case active_tabs w of
        [] \<Rightarrow> (Some no_active_tab, [])
      | t # _ \<Rightarrow> (case handleSummarizeRequest w of (result, calls) \<Rightarrow> (Some result, calls)))"
| "onMessage SUMMARIZE_SELECTION w =
     (case active_tabs w of
        [] \<Rightarrow> (Some no_active_tab, [])
      | t # _ \<Rightarrow>
          (case selection w of
             Inl err \<Rightarrow>
               (Some (failure (JStr (str ''Failed to get selection: '' @ err_message err))), [])
           | Inr None \<Rightarrow>
               (Some (failure (JStr (str ''No text selected. Please select some text on the page first.''))), [])
           | Inr (Some selectedText) \<Rightarrow>
               if selectedText = [] \<or> length (trim selectedText) = 0
               then (Some (failure (JStr (str ''No text selected. Please select some text on the page first.''))), [])
               else (case summarizeSelectedText selectedText w of
                       (summaryResult, calls) \<Rightarrow>
                         (Some \<lparr>summary = summary summaryResult,
                                result_title = Some (or_default (tab_title t) (str ''Selected Text'')),
                                result_url = tab_url t,
                                success = success summaryResult,
                                error = error summaryResult\<rparr>, calls))))"
| "onMessage OtherMessage w = (None, [])"

text \<open>
  The contract of a result object: a success carries a non-empty summary and no error,
  a failure carries an error and the empty summary.
\<close>

definition result_contract :: "summary_result \<Rightarrow> bool" where
  "result_contract r =
     (if success r then summary r \<noteq> [] \<and> error r = JUndefined
      else summary r = [] \<and> error r \<noteq> JUndefined)"

section \<open>storage.js and popup.js: the saved summaries\<close>

text \<open>
  The value stored under the key \<open>savedSummaries\<close> of \<open>chrome.storage.local\<close>;
  \<open>None\<close> is the absent key, which the code reads as \<open>result.savedSummaries || []\<close>.
  The fresh id (\<open>generateUUID()\<close>, drawn from \<open>Math.random\<close>) and the time
  (\<open>Date.now()\<close>) are inputs of a save. \<open>chrome.runtime.lastError\<close> after the read and
  after the write is an input too: \<open>Some m\<close> makes storage.js reject with \<open>Error(m)\<close>,
  and a failed write leaves the stored value as it was.
\<close>

record saved_summary =
  id' :: js_string
  saved_url :: "js_string option"
  saved_title :: "js_string option"
  saved_text :: js_string
  savedAt :: nat

record summary_input =
  in_url :: "js_string option"
  in_title :: "js_string option"
  in_summary :: js_string

type_synonym local_store = "saved_summary list option"

definition stored :: "local_store \<Rightarrow> saved_summary list" where
  "stored st = (case st of None \<Rightarrow> [] | Some l \<Rightarrow> l)"

definition mk_saved :: "summary_input \<Rightarrow> js_string \<Rightarrow> nat \<Rightarrow> saved_summary" where
  "mk_saved s uuid now =
     \<lparr>id' = uuid, saved_url = in_url s, saved_title = in_title s, saved_text = in_summary s,
      savedAt = now\<rparr>"

text \<open>\<open>summaries.unshift(x)\<close> followed by the cap \<open>if (length > 100) slice(0, 100)\<close>.\<close>

definition unshift_capped :: "saved_summary \<Rightarrow> saved_summary list \<Rightarrow> saved_summary list" where
  "unshift_capped x l =
     (let summaries = x # l
      in if length summaries > 100 then take 100 summaries else summaries)"

definition saveSummary ::
  "summary_input \<Rightarrow> js_string \<Rightarrow> nat \<Rightarrow> js_string option \<Rightarrow> js_string option \<Rightarrow>
   local_store \<Rightarrow> (js_string + saved_summary) \<times> local_store" where
  "saveSummary s uuid now get_err set_err st =
     (let savedSummary = mk_saved s uuid now
      in case get_err of
           Some m \<Rightarrow> (Inl m, st)
         | None \<Rightarrow>
             (let summaries = unshift_capped savedSummary (stored st)
              in case set_err of
                   Some m \<Rightarrow> (Inl m, st)
                 | None \<Rightarrow> (Inr savedSummary, Some summaries)))"

definition deleteSummary ::
  "js_string \<Rightarrow> js_string option \<Rightarrow> js_string option \<Rightarrow> local_store \<Rightarrow>
   (js_string + unit) \<times> local_store" where
  "deleteSummary i get_err set_err st =
     (case get_err of
        Some m \<Rightarrow> (Inl m, st)
      | None \<Rightarrow>
          (let filteredSummaries = filter (\<lambda>s. id' s \<noteq> i) (stored st)
           in case set_err of
                Some m \<Rightarrow> (Inl m, st)
              | None \<Rightarrow> (Inr (), Some filteredSummaries)))"

text \<open>
  popup.js keeps its own copies, without the \<open>lastError\<close> checks. \<open>currentSummary\<close> and
  \<open>currentDetailSummary\<close> are the popup's two slots; an empty slot makes the call return
  at once.
\<close>

definition saveCurrentSummary ::
  "summary_input option \<Rightarrow> js_string \<Rightarrow> nat \<Rightarrow> local_store \<Rightarrow> local_store" where
  "saveCurrentSummary currentSummary uuid now st =
     (case currentSummary of
        None \<Rightarrow> st
      | Some c \<Rightarrow> Some (unshift_capped (mk_saved c uuid now) (stored st)))"

definition deleteCurrentSummary :: "saved_summary option \<Rightarrow> local_store \<Rightarrow> local_store" where
  "deleteCurrentSummary currentDetailSummary st =
     (case currentDetailSummary of
        None \<Rightarrow> st
      | Some d \<Rightarrow> Some (filter (\<lambda>s. id' s \<noteq> id' d) (stored st)))"

text \<open>
  A run of saves, oldest first: each element is the summary, its fresh id and its time.
  \<open>save_all\<close> goes through storage.js with no storage fault, \<open>save_all_popup\<close> through
  the popup's copy.
\<close>

fun save_all :: "(summary_input \<times> js_string \<times> nat) list \<Rightarrow> local_store \<Rightarrow> local_store" where
  "save_all [] st = st"
| "save_all ((s, uuid, now) # es) st = save_all es (snd (saveSummary s uuid now None None st))"

fun save_all_popup ::
  "(summary_input \<times> js_string \<times> nat) list \<Rightarrow> local_store \<Rightarrow> local_store" where
  "save_all_popup [] st = st"
| "save_all_popup ((s, uuid, now) # es) st =
     save_all_popup es (saveCurrentSummary (Some s) uuid now st)"

definition entry_of :: "summary_input \<times> js_string \<times> nat \<Rightarrow> saved_summary" where
  "entry_of e = (case e of (s, uuid, now) \<Rightarrow> mk_saved s uuid now)"

section \<open>Properties of the saved summaries\<close>

lemma unshift_capped_take: "unshift_capped x l = take 100 (x # l)"
  by (simp add: unshift_capped_def Let_def)

lemma take_append_take: "take n (xs @ take n ys) = take n (xs @ ys)"
  by (simp add: min_def)

lemma stored_simps: "stored (Some l) = l" "stored None = []"
  by (simp_all add: stored_def)

lemma filter_le_100: "length l \<le> 100 \<Longrightarrow> length (filter P l) \<le> 100"
  using length_filter_le [of P l] by (rule le_trans)

lemma saveSummary_stored:
  "stored (snd (saveSummary s uuid now None None st)) = take 100 (mk_saved s uuid now # stored st)"
  by (simp add: saveSummary_def unshift_capped_take Let_def stored_def)

lemma saveCurrentSummary_stored:
  "stored (saveCurrentSummary (Some s) uuid now st) = take 100 (mk_saved s uuid now # stored st)"
  by (simp add: saveCurrentSummary_def unshift_capped_take stored_def)

lemma saveSummary_length:
  "length (stored st) \<le> 100 \<Longrightarrow> length (stored (snd (saveSummary s uuid now ge se st))) \<le> 100"
  by (cases ge; cases se) (simp_all add: saveSummary_def unshift_capped_take Let_def stored_def)

lemma deleteSummary_length:
  "length (stored st) \<le> 100 \<Longrightarrow> length (stored (snd (deleteSummary i ge se st))) \<le> 100"
  by (cases ge; cases se) (simp_all add: deleteSummary_def Let_def stored_simps filter_le_100)

lemma save_all_stored:
  "stored (save_all es st) =
     (if es = [] then stored st else take 100 (rev (map entry_of es) @ stored st))"
proof (induction es arbitrary: st)
  case Nil
  then show ?case by simp
next
  case (Cons e es)
  obtain s uuid now where e: "e = (s, uuid, now)" by (cases e) auto
  show ?case
  proof (cases "es = []")
    case True
    then show ?thesis by (simp add: e saveSummary_stored entry_of_def)
  next
    case False
    then show ?thesis using Cons.IH [of "snd (saveSummary s uuid now None None st)"]
      by (simp add: e saveSummary_stored entry_of_def
            take_append_take [of 100 _ "_ # _", simplified] del: take_Cons_numeral)
  qed
qed

lemma save_all_popup_eq: "stored (save_all_popup es st) = stored (save_all es st)"
proof (induction es arbitrary: st)
  case Nil
  then show ?case by simp
next
  case (Cons e es)
  obtain s uuid now where e: "e = (s, uuid, now)" by (cases e) auto
  have "saveCurrentSummary (Some s) uuid now st = snd (saveSummary s uuid now None None st)"
    by (simp add: saveCurrentSummary_def saveSummary_def Let_def)
  then show ?case using Cons.IH by (simp add: e)
qed

text \<open>
  Claim C4. From a stored list of at most 100 entries, a save puts the new entry at the
  head and keeps the first 100 entries; no save and no delete, in storage.js or in the
  popup, leaves more than 100; and after a run of more than 100 saves the list is
  exactly the 100 entries saved last, the newest first.
\<close>

theorem saved_summaries_capped:
  assumes "length (stored st) \<le> 100"
  shows "stored (snd (saveSummary s uuid now None None st)) = take 100 (mk_saved s uuid now # stored st)
    \<and> stored (saveCurrentSummary (Some s) uuid now st) = take 100 (mk_saved s uuid now # stored st)
    \<and> length (stored (snd (saveSummary s uuid now ge se st))) \<le> 100
    \<and> length (stored (saveCurrentSummary cur uuid now st)) \<le> 100
    \<and> length (stored (snd (deleteSummary i ge se st))) \<le> 100
    \<and> length (stored (deleteCurrentSummary det st)) \<le> 100
    \<and> (100 < length es \<longrightarrow>
          stored (save_all es st) = take 100 (rev (map entry_of es))
        \<and> stored (save_all es st) = rev (drop (length es - 100) (map entry_of es))
        \<and> length (stored (save_all es st)) = 100
        \<and> stored (save_all_popup es st) = stored (save_all es st))"
proof -
  have a: "length (stored (saveCurrentSummary cur uuid now st)) \<le> 100"
    using assms by (cases cur) (simp_all add: saveCurrentSummary_stored, simp add: saveCurrentSummary_def)
  have b: "length (stored (deleteCurrentSummary det st)) \<le> 100"
    using assms by (cases det) (simp_all add: deleteCurrentSummary_def stored_simps filter_le_100)
  have c: "stored (save_all es st) = take 100 (rev (map entry_of es))" if "100 < length es"
    using that by (auto simp: save_all_stored)
  have d: "take 100 (rev (map entry_of es)) = rev (drop (length es - 100) (map entry_of es))"
    by (simp add: take_rev)
  show ?thesis
    using a b c d saveSummary_stored saveCurrentSummary_stored saveSummary_length [OF assms]
      deleteSummary_length [OF assms] save_all_popup_eq
    by (simp add: )
qed


theorem saved_summaries_capped_witness:
  "length (stored None) \<le> 100
   \<and> 100 < length (map (\<lambda>n. (\<lparr>in_url = None, in_title = None, in_summary = []\<rparr>, [word_of_nat n :: 16 word], n)) [0..<101])
   \<and> stored (save_all (map (\<lambda>n. (\<lparr>in_url = None, in_title = None, in_summary = []\<rparr>, [word_of_nat n], n)) [0..<101]) None)
       = take 100 (rev (map entry_of
           (map (\<lambda>n. (\<lparr>in_url = None, in_title = None, in_summary = []\<rparr>, [word_of_nat n], n)) [0..<101])))
   \<and> length (stored (save_all (map (\<lambda>n. (\<lparr>in_url = None, in_title = None, in_summary = []\<rparr>, [word_of_nat n], n)) [0..<101]) None)) = 100"
  (is "_ \<and> 100 < length ?es \<and> _")
proof -
  have h: "length (stored None) \<le> 100" by (simp add: stored_simps)
  have len: "100 < length ?es" by simp
  from saved_summaries_capped [OF h, where es = ?es] len h show ?thesis by blast
qed

lemma filter_distinct_split:
  "distinct (map f (xs @ e # ys)) \<Longrightarrow> filter (\<lambda>s. f s \<noteq> f e) (xs @ e # ys) = xs @ ys"
proof -
  assume d: "distinct (map f (xs @ e # ys))"
  then have "f e \<notin> f ` set xs" and "f e \<notin> f ` set ys" by auto
  then have "\<forall>x\<in>set xs. f x \<noteq> f e" and "\<forall>x\<in>set ys. f x \<noteq> f e"
    by (metis imageI)+
  then show ?thesis by simp
qed

lemma deleteSummary_stored:
  "stored (snd (deleteSummary i None None st)) = filter (\<lambda>s. id' s \<noteq> i) (stored st)"
  by (simp add: deleteSummary_def stored_simps)

lemma deleteCurrentSummary_stored:
  "stored (deleteCurrentSummary (Some d) st) = filter (\<lambda>s. id' s \<noteq> id' d) (stored st)"
  by (simp add: deleteCurrentSummary_def stored_simps)

text \<open>
  Claim C7. In a stored list with unique ids, deleting an id that occurs removes exactly
  the entry with that id and keeps the others in their order; deleting an id that does
  not occur leaves the list as it was. The popup's \<open>deleteCurrentSummary\<close> does the same.
\<close>

theorem deleteSummary_removes_exactly_one:
  assumes "distinct (map id' (stored st))"
  shows "(i \<in> set (map id' (stored st)) \<longrightarrow>
            (\<exists>xs e ys. stored st = xs @ e # ys \<and> id' e = i
               \<and> stored (snd (deleteSummary i None None st)) = xs @ ys
               \<and> stored (deleteCurrentSummary (Some e) st) = xs @ ys))
       \<and> (i \<notin> set (map id' (stored st)) \<longrightarrow>
            stored (snd (deleteSummary i None None st)) = stored st
          \<and> (\<forall>d. id' d = i \<longrightarrow> stored (deleteCurrentSummary (Some d) st) = stored st))"
proof (intro conjI impI)
  assume "i \<in> set (map id' (stored st))"
  then obtain e where e: "e \<in> set (stored st)" "id' e = i" by auto
  then obtain xs ys where split: "stored st = xs @ e # ys" by (auto simp: in_set_conv_decomp)
  have "filter (\<lambda>s. id' s \<noteq> id' e) (xs @ e # ys) = xs @ ys"
    using assms split filter_distinct_split [of id' xs e ys] by simp
  then show "\<exists>xs e ys. stored st = xs @ e # ys \<and> id' e = i
               \<and> stored (snd (deleteSummary i None None st)) = xs @ ys
               \<and> stored (deleteCurrentSummary (Some e) st) = xs @ ys"
    using e split deleteSummary_stored [of i st] deleteCurrentSummary_stored [of e st] by metis
next
  assume n: "i \<notin> set (map id' (stored st))"
  then have f: "filter (\<lambda>s. id' s \<noteq> i) (stored st) = stored st"
    by (auto simp: filter_id_conv)
  then show "stored (snd (deleteSummary i None None st)) = stored st"
    by (simp add: deleteSummary_stored)
  show "\<forall>d. id' d = i \<longrightarrow> stored (deleteCurrentSummary (Some d) st) = stored st"
    using f by (auto simp: deleteCurrentSummary_stored)
qed

theorem deleteSummary_removes_exactly_one_witness:
  "distinct (map id' (stored (Some
      [\<lparr>id' = str ''a'', saved_url = None, saved_title = None, saved_text = str ''one'', savedAt = 3\<rparr>,
       \<lparr>id' = str ''b'', saved_url = None, saved_title = None, saved_text = str ''two'', savedAt = 2\<rparr>,
       \<lparr>id' = str ''c'', saved_url = None, saved_title = None, saved_text = str ''three'', savedAt = 1\<rparr>])))
   \<and> stored (snd (deleteSummary (str ''b'') None None (Some
      [\<lparr>id' = str ''a'', saved_url = None, saved_title = None, saved_text = str ''one'', savedAt = 3\<rparr>,
       \<lparr>id' = str ''b'', saved_url = None, saved_title = None, saved_text = str ''two'', savedAt = 2\<rparr>,
       \<lparr>id' = str ''c'', saved_url = None, saved_title = None, saved_text = str ''three'', savedAt = 1\<rparr>])))
     = [\<lparr>id' = str ''a'', saved_url = None, saved_title = None, saved_text = str ''one'', savedAt = 3\<rparr>,
        \<lparr>id' = str ''c'', saved_url = None, saved_title = None, saved_text = str ''three'', savedAt = 1\<rparr>]
   \<and> stored (snd (deleteSummary (str ''z'') None None (Some
      [\<lparr>id' = str ''a'', saved_url = None, saved_title = None, saved_text = str ''one'', savedAt = 3\<rparr>,
       \<lparr>id' = str ''b'', saved_url = None, saved_title = None, saved_text = str ''two'', savedAt = 2\<rparr>,
       \<lparr>id' = str ''c'', saved_url = None, saved_title = None, saved_text = str ''three'', savedAt = 1\<rparr>])))
     = [\<lparr>id' = str ''a'', saved_url = None, saved_title = None, saved_text = str ''one'', savedAt = 3\<rparr>,
        \<lparr>id' = str ''b'', saved_url = None, saved_title = None, saved_text = str ''two'', savedAt = 2\<rparr>,
        \<lparr>id' = str ''c'', saved_url = None, saved_title = None, saved_text = str ''three'', savedAt = 1\<rparr>]"
  (is "distinct (map id' (stored (Some ?l))) \<and> _")
proof -
  have h: "distinct (map id' (stored (Some ?l)))" by (simp add: stored_simps str_def)
  show ?thesis
    using deleteSummary_removes_exactly_one [OF h, of "str ''b''"]
      deleteSummary_removes_exactly_one [OF h, of "str ''z''"] h
    by (simp add: stored_simps str_def deleteSummary_def)
qed

section \<open>Properties of the extraction\<close>

lemma collapse_spaces_id: "\<forall>c\<in>set s. \<not> is_space c \<Longrightarrow> collapse_spaces s = s"
  by (induction s) simp_all

lemma collapse_blank_lines_id: "0x0A \<notin> set s \<Longrightarrow> collapse_blank_lines s = s"
  by (induction s) auto

lemma trim_id: "\<forall>c\<in>set s. \<not> is_space c \<Longrightarrow> trim s = s"
proof -
  assume h: "\<forall>c\<in>set s. \<not> is_space c"
  have "dropWhile is_space t = t" if "\<forall>c\<in>set t. \<not> is_space c" for t
    using that by (cases t) simp_all
  from this [of s] this [of "rev s"] h show ?thesis by (simp add: trim_def)
qed

lemma is_space_newline: "is_space 0x0A"
  by (simp add: is_space_def)

lemma clean_text_id: "\<forall>c\<in>set s. \<not> is_space c \<Longrightarrow> clean_text s = s"
proof -
  assume h: "\<forall>c\<in>set s. \<not> is_space c"
  then have "0x0A \<notin> set s" using is_space_newline by blast
  with h show ?thesis
    by (simp add: clean_text_def collapse_spaces_id collapse_blank_lines_id trim_id)
qed

lemma clean_text_replicate_a: "clean_text (replicate n 0x61) = replicate n 0x61"
  by (rule clean_text_id) (simp add: is_space_def)

lemma extract_text_bound: "length (text' (extractArticleContent d)) \<le> 10000"
  by (simp add: extractArticleContent_def Let_def MAX_CONTENT_LENGTH_def split: option.splits)

text \<open>
  Claim C5. When the cleaned text of the container is longer than 10,000 code units,
  \<open>extractArticleContent\<close> succeeds with exactly its first 10,000 code units, a strict
  prefix of the cleaned text; a cleaned text of 50 to 10,000 code units is returned as
  it is; the returned text is never longer than 10,000.
\<close>

theorem extractArticleContent_truncates:
  assumes "page_container d = Some el" and "cleaned = clean_text (raw_text el)"
  shows "(10000 < length cleaned \<longrightarrow>
            extract_success (extractArticleContent d)
          \<and> length (text' (extractArticleContent d)) = 10000
          \<and> text' (extractArticleContent d) = take 10000 cleaned
          \<and> strict_prefix (text' (extractArticleContent d)) cleaned)
       \<and> (50 \<le> length cleaned \<and> length cleaned \<le> 10000 \<longrightarrow>
            extract_success (extractArticleContent d)
          \<and> text' (extractArticleContent d) = cleaned)
       \<and> length (text' (extractArticleContent d)) \<le> 10000"
proof (intro conjI impI)
  assume long: "10000 < length cleaned"
  then have ne: "cleaned \<noteq> []" by auto
  from long assms ne show "extract_success (extractArticleContent d)"
    by (simp add: extractArticleContent_def Let_def)
  from long assms ne show t: "text' (extractArticleContent d) = take 10000 cleaned"
    by (simp add: extractArticleContent_def Let_def MAX_CONTENT_LENGTH_def)
  from t long show "length (text' (extractArticleContent d)) = 10000" by simp
  have "take 10000 cleaned \<noteq> cleaned" using long by (metis length_take min.absorb2 less_imp_le nat_neq_iff)
  then show "strict_prefix (text' (extractArticleContent d)) cleaned"
    unfolding t strict_prefix_def by (simp add: take_is_prefix)
next
  assume mid: "50 \<le> length cleaned \<and> length cleaned \<le> 10000"
  then have ne: "cleaned \<noteq> []" by auto
  from mid assms ne show "extract_success (extractArticleContent d)"
    by (simp add: extractArticleContent_def Let_def)
  from mid assms ne show "text' (extractArticleContent d) = cleaned"
    by (simp add: extractArticleContent_def Let_def MAX_CONTENT_LENGTH_def)
next
  show "length (text' (extractArticleContent d)) \<le> 10000" by (rule extract_text_bound)
qed

theorem extractArticleContent_truncates_witness:
  "page_container \<lparr>selector_matches = [(''article'',
        \<lparr>el_content = [], el_textContent = [], clone_innerText = replicate 10001 0x61,
         clone_textContent = []\<rparr>)],
      doc_title = str ''Long'', doc_body = None, location_href = str ''https://example.org/long''\<rparr>
     = Some \<lparr>el_content = [], el_textContent = [], clone_innerText = replicate 10001 0x61,
             clone_textContent = []\<rparr>
   \<and> 10000 < length (clean_text (raw_text
        \<lparr>el_content = [], el_textContent = [], clone_innerText = replicate 10001 0x61,
         clone_textContent = []\<rparr>))
   \<and> extract_success (extractArticleContent \<lparr>selector_matches = [(''article'',
        \<lparr>el_content = [], el_textContent = [], clone_innerText = replicate 10001 0x61,
         clone_textContent = []\<rparr>)],
      doc_title = str ''Long'', doc_body = None, location_href = str ''https://example.org/long''\<rparr>)
   \<and> text' (extractArticleContent \<lparr>selector_matches = [(''article'',
        \<lparr>el_content = [], el_textContent = [], clone_innerText = replicate 10001 0x61,
         clone_textContent = []\<rparr>)],
      doc_title = str ''Long'', doc_body = None, location_href = str ''https://example.org/long''\<rparr>)
     = replicate 10000 0x61"
  (is "page_container ?d = Some ?el \<and> _")
proof -
  have pc: "page_container ?d = Some ?el"
    by (simp add: page_container_def findArticleContainer_def ARTICLE_SELECTORS_def
          querySelector_def)
  have cl: "clean_text (raw_text ?el) = replicate 10001 0x61"
    by (simp add: raw_text_def clean_text_replicate_a)
  have tk: "take 10000 (replicate 10001 (0x61 :: 16 word)) = replicate 10000 0x61"
    by simp
  from extractArticleContent_truncates [OF pc refl] pc cl tk show ?thesis
    by simp
qed

text \<open>
  Claim C9. When the cleaned text of the container has fewer than 50 code units,
  \<open>extractArticleContent\<close> answers with \<open>success: false\<close>, the empty text and the error
  \<open>No content found to summarize\<close>, and still carries the extracted title and the URL.
\<close>

theorem extractArticleContent_no_content:
  assumes "page_container d = Some el" and "length (clean_text (raw_text el)) < 50"
  shows "extractArticleContent d =
           \<lparr>title = extractTitle d, text' = [], url = location_href d, extract_success = False,
            extract_error = Some (str ''No content found to summarize'')\<rparr>"
  using assms by (simp add: extractArticleContent_def Let_def)


theorem extractArticleContent_no_content_witness:
  "page_container \<lparr>selector_matches = [], doc_title = str '' Short page '',
      doc_body = Some \<lparr>el_content = [], el_textContent = [], clone_innerText = [],
                       clone_textContent = str ''  Too   short '' @ [0x0A, 0x0A] @ str '' a page ''\<rparr>,
      location_href = str ''https://example.org/short''\<rparr>
     = Some \<lparr>el_content = [], el_textContent = [], clone_innerText = [],
             clone_textContent = str ''  Too   short '' @ [0x0A, 0x0A] @ str '' a page ''\<rparr>
   \<and> clean_text (raw_text \<lparr>el_content = [], el_textContent = [], clone_innerText = [],
             clone_textContent = str ''  Too   short '' @ [0x0A, 0x0A] @ str '' a page ''\<rparr>)
       = str ''Too short a page''
   \<and> extractArticleContent \<lparr>selector_matches = [], doc_title = str '' Short page '',
      doc_body = Some \<lparr>el_content = [], el_textContent = [], clone_innerText = [],
                       clone_textContent = str ''  Too   short '' @ [0x0A, 0x0A] @ str '' a page ''\<rparr>,
      location_href = str ''https://example.org/short''\<rparr>
     = \<lparr>title = str ''Short page'', text' = [], url = str ''https://example.org/short'',
        extract_success = False, extract_error = Some (str ''No content found to summarize'')\<rparr>"
  (is "page_container ?d = Some ?el \<and> _")
proof -
  have pc: "page_container ?d = Some ?el"
    by (simp add: page_container_def findArticleContainer_def ARTICLE_SELECTORS_def
          querySelector_def)
  have cl: "clean_text (raw_text ?el) = str ''Too short a page''"
    by (simp add: raw_text_def clean_text_def trim_def is_space_def str_def)
  have len: "length (clean_text (raw_text ?el)) < 50"
    unfolding cl by (simp add: str_def)
  have ti: "extractTitle ?d = str ''Short page''"
    by (simp add: extractTitle_def querySelector_def trim_def is_space_def str_def)
  from extractArticleContent_no_content [OF pc len] pc cl ti show ?thesis
    by simp
qed

section \<open>Properties of the completion request\<close>





lemma generateSummary_calls: "snd (generateSummary c k p out) = [build_request c k p]"
  by (simp add: generateSummary_def Let_def)

lemma build_request_messages:
  "req_messages (build_request c k p) =
     [(str ''system'', SYSTEM_PROMPT),
      (str ''user'', str ''Title: '' @ filter (\<lambda>u. u \<le> 0x7F) (title c) @ [0x0A, 0x0A]
         @ str ''Content:'' @ [0x0A] @ text' c)]"
  by (simp add: build_request_def Let_def user_message_def sanitize_def)


text \<open>
  Claim C8. The one request \<open>generateSummary\<close> makes carries the system prompt and the
  user message \<open>Title: <t>\n\nContent:\n<body>\<close>, where \<open><t>\<close> is the title without its
  code units above 0x7F (so every code unit left is ASCII) and \<open><body>\<close> is the text as
  it came in. For the title \<open>Caf? news!\<close>, the \<open>?\<close> standing for the accented letter U+00E9,
  and the provider \<open>openrouter\<close> the message starts \<open>Title: Caf news!\<close> and ends with the
  unchanged body.
\<close>

theorem generateSummary_user_message:
  "map req_messages (snd (generateSummary c k p out)) =
     [[(str ''system'', SYSTEM_PROMPT),
       (str ''user'', str ''Title: '' @ filter (\<lambda>u. u \<le> 0x7F) (title c) @ [0x0A, 0x0A]
          @ str ''Content:'' @ [0x0A] @ text' c)]]
   \<and> (\<forall>u \<in> set (filter (\<lambda>u. u \<le> 0x7F) (title c)). u \<le> 0x7F)
   \<and> map req_messages (snd (generateSummary
        \<lparr>title = str ''Caf'' @ [0xE9] @ str '' news!'', text' = body, url = link\<rparr> k
        (Some (str ''openrouter'')) out)) =
     [[(str ''system'', SYSTEM_PROMPT),
       (str ''user'', str ''Title: Caf news!'' @ [0x0A, 0x0A] @ str ''Content:'' @ [0x0A] @ body)]]"
  by (simp add: generateSummary_calls build_request_messages) (simp add: str_def)

theorem generateSummary_user_message_witness:
  "map req_messages (snd (generateSummary
      \<lparr>title = [0x4E, 0x61, 0xEF, 0x76, 0x65, 0xD83D, 0xDE00], text' = [0xE9, 0x0A, 0x20, 0x74], url = []\<rparr>
      (str ''sk-1'') None (Threw (JsError [] [])))) =
     [[(str ''system'', SYSTEM_PROMPT),
       (str ''user'', str ''Title: Nave'' @ [0x0A, 0x0A] @ str ''Content:'' @ [0x0A]
          @ [0xE9, 0x0A, 0x20, 0x74])]]
   \<and> list_all (\<lambda>u. u \<le> 0x7F) (filter (\<lambda>u. u \<le> 0x7F) [0x4E, 0x61, 0xEF, 0x76, 0x65, 0xD83D, 0xDE00 :: 16 word])"
  using generateSummary_user_message [of
      "\<lparr>title = [0x4E, 0x61, 0xEF, 0x76, 0x65, 0xD83D, 0xDE00], text' = [0xE9, 0x0A, 0x20, 0x74], url = []\<rparr>"
      "str ''sk-1''" None "Threw (JsError [] [])"]
  by (simp add: str_def)







text \<open>
  A first choice without \<open>message\<close>, a blank \<open>content\<close> and a body without \<open>choices\<close> all
  give the could-not-generate failure.
\<close>

lemma generateSummary_missing_message:
  "fst (generateSummary c k p (Responded \<lparr>status = 200, resp_json = Inr
      (JObj [(str ''choices'', JArr [JObj [(str ''index'', JNum 0)]])])\<rparr>)) = could_not_generate
   \<and> fst (generateSummary c k p (Responded \<lparr>status = 200, resp_json = Inr
      (JObj [(str ''choices'', JArr [JObj [(str ''message'',
         JObj [(str ''content'', JStr (str ''  ''))])]])])\<rparr>)) = could_not_generate
   \<and> fst (generateSummary c k p (Responded \<lparr>status = 200, resp_json = Inr (JObj [])\<rparr>))
       = could_not_generate"
  by (simp add: generateSummary_def Let_def after_fetch_def response_ok_def read_completion_def
        own_prop_def trim_def is_space_def str_def)

text \<open>
  Claim C1, at a successful response whose first choice has a \<open>message\<close> without
  \<open>content\<close> (or with \<open>content: null\<close>). The presence checks pass, \<open>.content.trim()\<close>
  throws a TypeError, and the \<open>catch\<close> reports it as a network error: the result is a
  failure with the empty summary, no exception escapes, but the error string is not
  \<open>Could not generate summary. Please try again.\<close>
\<close>

theorem generateSummary_missing_content:
  "fst (generateSummary c k p (Responded \<lparr>status = 200, resp_json = Inr
      (JObj [(str ''choices'', JArr [JObj [(str ''message'',
         JObj [(str ''role'', JStr (str ''assistant''))])]])])\<rparr>))
     = failure (JStr (str ''Network error: Cannot read properties of undefined (reading 'trim'). Please reload the extension and try again.''))
   \<and> fst (generateSummary c k p (Responded \<lparr>status = 200, resp_json = Inr
      (JObj [(str ''choices'', JArr [JObj [(str ''message'',
         JObj [(str ''role'', JStr (str ''assistant'')), (str ''content'', JNull)])]])])\<rparr>))
     = failure (JStr (str ''Network error: Cannot read properties of null (reading 'trim'). Please reload the extension and try again.''))
   \<and> failure (JStr (str ''Network error: Cannot read properties of undefined (reading 'trim'). Please reload the extension and try again.''))
       \<noteq> could_not_generate"
  by (simp add: generateSummary_def Let_def after_fetch_def response_ok_def read_completion_def
        own_prop_def catch_error_def cannot_read_def TypeError_def could_not_generate_def
        failure_def str_def)

text \<open>
  The status 504 lies in the range 500 to 599 and is not one of the three statuses the
  \<open>switch\<close> lists: with no provider message it gets the generic message.
\<close>

theorem handleApiError_504_counterexample:
  "500 \<le> (504::nat) \<and> (504::nat) \<le> 599
   \<and> handleApiError 504 (JObj []) = Inr (failure (JStr (str ''An error occurred. Please try again.'')))
   \<and> handleApiError 504 (JObj [])
       \<noteq> Inr (failure (JStr (str ''OpenAI service is temporarily unavailable. Please try again.'')))"
  by (simp add: handleApiError_def provider_message_def own_prop_def failure_def str_def)

text \<open>
  Claim C2, as the code has it. The statuses 500, 502 and 503 give the fixed
  service-unavailable message, 401 the invalid-key message, 429 the rate-limit message.
  Every other status (the other 5xx statuses among them), for an \<open>errorData\<close> that is
  neither \<open>null\<close> nor \<open>undefined\<close>, gives \<open>errorData.error?.message\<close> when that value is
  truthy and the generic message otherwise: a non-empty string \<open>error.message\<close> is
  passed on, a missing \<open>error\<close> or a missing \<open>error.message\<close> gives the generic message.
\<close>

theorem handleApiError_cases:
  "(st = 500 \<or> st = 502 \<or> st = 503 \<longrightarrow>
      handleApiError st errorData =
        Inr (failure (JStr (str ''OpenAI service is temporarily unavailable. Please try again.''))))
   \<and> handleApiError 401 errorData =
        Inr (failure (JStr (str ''Invalid API key. Please check your settings.'')))
   \<and> handleApiError 429 errorData =
        Inr (failure (JStr (str ''Rate limited. Please try again in a moment.'')))
   \<and> (st \<notin> {401, 429, 500, 502, 503} \<and> errorData \<noteq> JNull \<and> errorData \<noteq> JUndefined \<longrightarrow>
        (\<exists>m. provider_message errorData = Inr m
           \<and> handleApiError st errorData =
               Inr (failure (if truthy m then m
                             else JStr (str ''An error occurred. Please try again.'')))))
   \<and> (st \<notin> {401, 429, 500, 502, 503} \<and> errorData = JObj kvs \<and> own_prop kvs ''error'' = JObj ekvs
        \<and> own_prop ekvs ''message'' = JStr msg \<and> msg \<noteq> [] \<longrightarrow>
        handleApiError st errorData = Inr (failure (JStr msg)))
   \<and> (st \<notin> {401, 429, 500, 502, 503} \<and> errorData = JObj kvs
        \<and> (own_prop kvs ''error'' = JUndefined
            \<or> own_prop kvs ''error'' = JObj ekvs \<and> own_prop ekvs ''message'' = JUndefined) \<longrightarrow>
        handleApiError st errorData =
          Inr (failure (JStr (str ''An error occurred. Please try again.''))))"
proof -
  have a: "\<exists>m. provider_message errorData = Inr m"
    if h1: "errorData \<noteq> JNull" and h2: "errorData \<noteq> JUndefined"
  proof -
    obtain v where v: "get_prop errorData ''error'' = Inr v"
      using h1 h2 by (cases errorData) auto
    then show ?thesis
      by (cases v) (simp_all add: provider_message_def)
  qed
  have b: "handleApiError st errorData =
             Inr (failure (if truthy m then m else JStr (str ''An error occurred. Please try again.'')))"
    if "st \<notin> {401, 429, 500, 502, 503}" and "provider_message errorData = Inr m" for m
    using that by (simp add: handleApiError_def)
  have p1: "st = 500 \<or> st = 502 \<or> st = 503 \<longrightarrow>
      handleApiError st errorData =
        Inr (failure (JStr (str ''OpenAI service is temporarily unavailable. Please try again.'')))"
    by (auto simp: handleApiError_def)
  have p2: "handleApiError 401 errorData =
        Inr (failure (JStr (str ''Invalid API key. Please check your settings.'')))"
    by (simp add: handleApiError_def)
  have p3: "handleApiError 429 errorData =
        Inr (failure (JStr (str ''Rate limited. Please try again in a moment.'')))"
    by (simp add: handleApiError_def)
  have p4: "st \<notin> {401, 429, 500, 502, 503} \<and> errorData \<noteq> JNull \<and> errorData \<noteq> JUndefined \<longrightarrow>
        (\<exists>m. provider_message errorData = Inr m
           \<and> handleApiError st errorData =
               Inr (failure (if truthy m then m
                             else JStr (str ''An error occurred. Please try again.''))))"
    using a b by blast
  have p5: "st \<notin> {401, 429, 500, 502, 503} \<and> errorData = JObj kvs \<and> own_prop kvs ''error'' = JObj ekvs
        \<and> own_prop ekvs ''message'' = JStr msg \<and> msg \<noteq> [] \<longrightarrow>
        handleApiError st errorData = Inr (failure (JStr msg))"
  proof
    assume h: "st \<notin> {401, 429, 500, 502, 503} \<and> errorData = JObj kvs \<and> own_prop kvs ''error'' = JObj ekvs
        \<and> own_prop ekvs ''message'' = JStr msg \<and> msg \<noteq> []"
    then have "provider_message errorData = Inr (JStr msg)"
      by (simp add: provider_message_def)
    with h b [of "JStr msg"] show "handleApiError st errorData = Inr (failure (JStr msg))"
      by simp
  qed
  have p6: "st \<notin> {401, 429, 500, 502, 503} \<and> errorData = JObj kvs
        \<and> (own_prop kvs ''error'' = JUndefined
            \<or> own_prop kvs ''error'' = JObj ekvs \<and> own_prop ekvs ''message'' = JUndefined) \<longrightarrow>
        handleApiError st errorData =
          Inr (failure (JStr (str ''An error occurred. Please try again.'')))"
  proof
    assume h: "st \<notin> {401, 429, 500, 502, 503} \<and> errorData = JObj kvs
        \<and> (own_prop kvs ''error'' = JUndefined
            \<or> own_prop kvs ''error'' = JObj ekvs \<and> own_prop ekvs ''message'' = JUndefined)"
    then have "provider_message errorData = Inr JUndefined"
      by (auto simp: provider_message_def)
    with h b [of JUndefined] show "handleApiError st errorData =
          Inr (failure (JStr (str ''An error occurred. Please try again.'')))"
      by simp
  qed
  from p1 p2 p3 p4 p5 p6 show ?thesis by (intro conjI)
qed

theorem handleApiError_cases_witness:
  "handleApiError 503 (JObj []) =
     Inr (failure (JStr (str ''OpenAI service is temporarily unavailable. Please try again.'')))
   \<and> handleApiError 504 (JObj [(str ''error'', JObj [(str ''message'', JStr (str ''Gateway timeout''))])]) =
     Inr (failure (JStr (str ''Gateway timeout'')))
   \<and> handleApiError 404 (JObj [(str ''error'', JObj [(str ''code'', JNum 404)])]) =
     Inr (failure (JStr (str ''An error occurred. Please try again.'')))"
proof -
  have k1: "own_prop [(str ''error'', JObj [(str ''message'', JStr (str ''Gateway timeout''))])] ''error''
              = JObj [(str ''message'', JStr (str ''Gateway timeout''))]"
    by (simp add: own_prop_def)
  have k2: "own_prop [(str ''message'', JStr (str ''Gateway timeout''))] ''message''
              = JStr (str ''Gateway timeout'')"
    by (simp add: own_prop_def)
  have k3: "own_prop [(str ''error'', JObj [(str ''code'', JNum 404)])] ''error''
              = JObj [(str ''code'', JNum 404)]"
    by (simp add: own_prop_def)
  have k4: "own_prop [(str ''code'', JNum 404)] ''message'' = JUndefined"
    by (simp add: own_prop_def str_def)
  have k5: "str ''Gateway timeout'' \<noteq> []" by (simp add: str_def)
  from handleApiError_cases [of 503 "JObj []"]
    handleApiError_cases [of 504 "JObj [(str ''error'', JObj [(str ''message'', JStr (str ''Gateway timeout''))])]"
      "[(str ''error'', JObj [(str ''message'', JStr (str ''Gateway timeout''))])]"
      "[(str ''message'', JStr (str ''Gateway timeout''))]" "str ''Gateway timeout''"]
    handleApiError_cases [of 404 "JObj [(str ''error'', JObj [(str ''code'', JNum 404)])]"
      "[(str ''error'', JObj [(str ''code'', JNum 404)])]" "[(str ''code'', JNum 404)]"]
    k1 k2 k3 k4 k5
  show ?thesis by simp
qed

section \<open>The contract of the results\<close>

lemma failure_contract: "e \<noteq> JUndefined \<Longrightarrow> result_contract (failure e)"
  by (simp add: result_contract_def failure_def)

lemma truthy_defined: "truthy m \<Longrightarrow> m \<noteq> JUndefined"
  by (cases m) simp_all

lemma handleApiError_contract: "handleApiError st ed = Inr r \<Longrightarrow> result_contract r"
  by (auto simp: handleApiError_def failure_contract truthy_defined split: if_splits sum.splits)

lemma read_completion_contract: "read_completion d = Inr r \<Longrightarrow> result_contract r"
  unfolding read_completion_def
  by (auto simp: could_not_generate_def failure_def result_contract_def
        split: sum.splits if_splits)

lemma catch_error_contract: "result_contract (catch_error e)"
  by (simp add: catch_error_def failure_contract)

lemma after_fetch_contract: "after_fetch out = Inr r \<Longrightarrow> result_contract r"
  unfolding after_fetch_def
  by (auto simp: Let_def handleApiError_contract read_completion_contract
        split: fetch_outcome.splits if_splits sum.splits)

lemma generateSummary_contract: "result_contract (fst (generateSummary c k p out))"
  by (cases "after_fetch out")
     (simp_all add: generateSummary_def Let_def catch_error_contract after_fetch_contract)

lemma contract_transfer:
  "result_contract r \<Longrightarrow>
   result_contract \<lparr>summary = summary r, result_title = t, result_url = u, success = success r,
                    error = error r\<rparr>"
  by (simp add: result_contract_def)

lemma handleSummarizeRequest_contract: "result_contract (fst (handleSummarizeRequest w))"
proof (cases "getApiKey w")
  case None
  then show ?thesis
    by (simp add: handleSummarizeRequest_def Let_def result_contract_def not_configured_def)
next
  case (Some key)
  show ?thesis
  proof (cases "extract_success (extractContentFromTab w)")
    case False
    with Some show ?thesis
      by (simp add: handleSummarizeRequest_def Let_def result_contract_def)
  next
    case True
    with Some show ?thesis
      using generateSummary_contract [of "extractContentFromTab w" key "Some (getApiProvider w)" "fetch w"]
      by (simp add: handleSummarizeRequest_def Let_def split_beta contract_transfer)
  qed
qed

lemma summarizeSelectedText_contract: "result_contract (fst (summarizeSelectedText t w))"
  by (cases "getApiKey w")
     (simp_all add: summarizeSelectedText_def Let_def generateSummary_contract failure_contract
        not_configured_def)

lemma onMessage_contract: "fst (onMessage m w) = Some r \<Longrightarrow> result_contract r"
proof (cases m)
  case GENERATE_SUMMARY
  assume "fst (onMessage m w) = Some r"
  with GENERATE_SUMMARY show ?thesis
    using handleSummarizeRequest_contract [of w]
    by (auto simp: no_active_tab_def failure_contract split_beta split: list.splits)
next
  case SUMMARIZE_SELECTION
  assume "fst (onMessage m w) = Some r"
  with SUMMARIZE_SELECTION show ?thesis
    using summarizeSelectedText_contract [of _ w]
    by (auto simp: no_active_tab_def failure_contract split_beta contract_transfer
          split: list.splits sum.splits option.splits if_splits)
next
  case OtherMessage
  assume "fst (onMessage m w) = Some r"
  with OtherMessage show ?thesis by simp
qed

text \<open>
  Claim C6. Every result that \<open>generateSummary\<close>, \<open>handleSummarizeRequest\<close>,
  \<open>summarizeSelectedText\<close> or the message listener hands out has \<open>success\<close> false exactly
  when its error is set and its summary is empty; a success has a non-empty summary and
  no error.
\<close>

theorem summary_result_contract:
  assumes "r = fst (generateSummary c k p out) \<or> r = fst (handleSummarizeRequest w)
           \<or> r = fst (summarizeSelectedText t w) \<or> fst (onMessage m w) = Some r"
  shows "((\<not> success r) = (error r \<noteq> JUndefined \<and> summary r = []))
       \<and> (success r \<longrightarrow> summary r \<noteq> [] \<and> error r = JUndefined)"
proof -
  have "result_contract r"
    using assms generateSummary_contract handleSummarizeRequest_contract
      summarizeSelectedText_contract onMessage_contract by blast
  then show ?thesis
    by (auto simp: result_contract_def split: if_splits)
qed

theorem summary_result_contract_witness:
  "onMessage GENERATE_SUMMARY
     \<lparr>active_tabs = [\<lparr>tab_id = 1, tab_title = Some (str ''Doc''), tab_url = None\<rparr>],
      stored_apiKey = Some (str ''sk-1''), stored_apiProvider = None, selection = Inr None,
      tabs_get = Inl (JsError [] []),
      page = Inr \<lparr>selector_matches = [], doc_title = str ''Doc'',
                  doc_body = Some \<lparr>el_content = [], el_textContent = [],
                                   clone_innerText = replicate 60 0x61, clone_textContent = []\<rparr>,
                  location_href = str ''https://example.org/''\<rparr>,
      fetch = Responded \<lparr>status = 200, resp_json = Inr
        (JObj [(str ''choices'', JArr [JObj [(str ''message'',
           JObj [(str ''content'', JStr (str '' A summary. ''))])]])])\<rparr>\<rparr>
   = (Some \<lparr>summary = str ''A summary.'', result_title = Some (str ''Doc''),
            result_url = Some (str ''https://example.org/''), success = True, error = JUndefined\<rparr>,
      [build_request \<lparr>title = str ''Doc'', text' = replicate 60 0x61, url = str ''https://example.org/'',
                      extract_success = True, extract_error = None\<rparr> (str ''sk-1'')
         (Some (str ''openai''))])
   \<and> success \<lparr>summary = str ''A summary.'', result_title = Some (str ''Doc''),
            result_url = Some (str ''https://example.org/''), success = True, error = JUndefined\<rparr>
   \<and> summary \<lparr>summary = str ''A summary.'', result_title = Some (str ''Doc''),
            result_url = Some (str ''https://example.org/''), success = True, error = JUndefined\<rparr> \<noteq> []
   \<and> error \<lparr>summary = str ''A summary.'', result_title = Some (str ''Doc''),
            result_url = Some (str ''https://example.org/''), success = True, error = JUndefined\<rparr> = JUndefined"
  (is "onMessage GENERATE_SUMMARY ?w = (Some ?r, ?calls) \<and> _")
proof -
  have ex: "extractArticleContent \<lparr>selector_matches = [], doc_title = str ''Doc'',
                  doc_body = Some \<lparr>el_content = [], el_textContent = [],
                                   clone_innerText = replicate 60 0x61, clone_textContent = []\<rparr>,
                  location_href = str ''https://example.org/''\<rparr>
     = \<lparr>title = str ''Doc'', text' = replicate 60 0x61, url = str ''https://example.org/'',
        extract_success = True, extract_error = None\<rparr>"
    by (simp add: extractArticleContent_def page_container_def findArticleContainer_def
          ARTICLE_SELECTORS_def querySelector_def raw_text_def clean_text_replicate_a
          MAX_CONTENT_LENGTH_def extractTitle_def Let_def)
       (simp add: trim_def is_space_def str_def)
  have tr: "trim (str '' A summary. '') = str ''A summary.''"
    by (simp add: trim_def is_space_def str_def)
  have rc: "read_completion (JObj [(str ''choices'', JArr [JObj [(str ''message'',
           JObj [(str ''content'', JStr (str '' A summary. ''))])]])])
      = Inr \<lparr>summary = str ''A summary.'', result_title = None, result_url = None,
              success = True, error = JUndefined\<rparr>"
    by (simp add: read_completion_def own_prop_def tr) (simp add: str_def)
  have om: "onMessage GENERATE_SUMMARY ?w = (Some ?r, ?calls)"
    by (simp add: handleSummarizeRequest_def getApiKey_def getApiProvider_def or_default_def
          extractContentFromTab_def ex generateSummary_def after_fetch_def response_ok_def rc
          Let_def)
       (simp add: str_def)
  then have "fst (onMessage GENERATE_SUMMARY ?w) = Some ?r" by simp
  from summary_result_contract [where r = ?r and m = GENERATE_SUMMARY and w = ?w, OF disjI2, OF disjI2, OF disjI2, OF this] om
  show ?thesis by simp
qed

section \<open>Properties of the request handlers\<close>

lemma trim_Nil: "trim [] = []"
  by (simp add: trim_def)

text \<open>
  With no API key and a selection of blanks, the selection request is answered with the
  nothing-selected error, not with the not-configured error: the listener reads and
  checks the selection before \<open>summarizeSelectedText\<close> looks at the configuration.
\<close>

theorem selection_read_before_config_counterexample:
  "getApiKey \<lparr>active_tabs = [\<lparr>tab_id = 7, tab_title = Some (str ''Page''), tab_url = None\<rparr>],
      stored_apiKey = None, stored_apiProvider = None, selection = Inr (Some (str ''   '')),
      tabs_get = Inr \<lparr>tab_id = 7, tab_title = Some (str ''Page''), tab_url = None\<rparr>,
      page = Inl (JsError [] []), fetch = Threw (JsError [] [])\<rparr> = None
   \<and> onMessage SUMMARIZE_SELECTION
     \<lparr>active_tabs = [\<lparr>tab_id = 7, tab_title = Some (str ''Page''), tab_url = None\<rparr>],
      stored_apiKey = None, stored_apiProvider = None, selection = Inr (Some (str ''   '')),
      tabs_get = Inr \<lparr>tab_id = 7, tab_title = Some (str ''Page''), tab_url = None\<rparr>,
      page = Inl (JsError [] []), fetch = Threw (JsError [] [])\<rparr>
     = (Some (failure (JStr (str ''No text selected. Please select some text on the page first.''))), [])
   \<and> JStr (str ''No text selected. Please select some text on the page first.'') \<noteq> not_configured"
  by (simp add: getApiKey_def trim_def is_space_def not_configured_def str_def)

text \<open>
  Claim C3, as the code has it. With no API key no request reaches the network, whatever
  the message. \<open>handleSummarizeRequest\<close> and \<open>summarizeSelectedText\<close> answer with the
  not-configured error before anything else: in the page scope, once an active tab is
  found, the check precedes the extraction; in the selection scope the not-configured
  error is what the listener sends once an active tab is found and the selection has
  been read and is not blank.
\<close>

theorem missing_key_reported:
  assumes "getApiKey w = None"
  shows "snd (onMessage m w) = []
       \<and> handleSummarizeRequest w =
           (\<lparr>summary = [], result_title = Some [], result_url = Some [], success = False,
             error = not_configured\<rparr>, [])
       \<and> summarizeSelectedText selectedText w = (failure not_configured, [])
       \<and> (active_tabs w \<noteq> [] \<longrightarrow>
            fst (onMessage GENERATE_SUMMARY w) =
              Some \<lparr>summary = [], result_title = Some [], result_url = Some [], success = False,
                    error = not_configured\<rparr>)
       \<and> (active_tabs w = t # ts \<and> selection w = Inr (Some sel) \<and> trim sel \<noteq> [] \<longrightarrow>
            fst (onMessage SUMMARIZE_SELECTION w) =
              Some \<lparr>summary = [], result_title = Some (or_default (tab_title t) (str ''Selected Text'')),
                    result_url = tab_url t, success = False, error = not_configured\<rparr>)"
proof -
  have h: "handleSummarizeRequest w =
           (\<lparr>summary = [], result_title = Some [], result_url = Some [], success = False,
             error = not_configured\<rparr>, [])"
    using assms by (simp add: handleSummarizeRequest_def)
  have s: "summarizeSelectedText x w = (failure not_configured, [])" for x
    using assms by (simp add: summarizeSelectedText_def)
  have n: "snd (onMessage m w) = []"
    by (cases m) (auto simp: h s split: list.splits sum.splits option.splits)
  have g: "active_tabs w \<noteq> [] \<longrightarrow>
            fst (onMessage GENERATE_SUMMARY w) =
              Some \<lparr>summary = [], result_title = Some [], result_url = Some [], success = False,
                    error = not_configured\<rparr>"
    by (auto simp: h split: list.splits)
  have q: "active_tabs w = t # ts \<and> selection w = Inr (Some sel) \<and> trim sel \<noteq> [] \<longrightarrow>
            fst (onMessage SUMMARIZE_SELECTION w) =
              Some \<lparr>summary = [], result_title = Some (or_default (tab_title t) (str ''Selected Text'')),
                    result_url = tab_url t, success = False, error = not_configured\<rparr>"
    by (auto simp: s failure_def trim_Nil)
  from n h s g q show ?thesis by simp
qed

theorem missing_key_reported_witness:
  "getApiKey \<lparr>active_tabs = [\<lparr>tab_id = 7, tab_title = None, tab_url = Some (str ''https://example.org/'')\<rparr>],
      stored_apiKey = Some [], stored_apiProvider = Some (str ''openrouter''),
      selection = Inr (Some (str '' some words '')),
      tabs_get = Inl (JsError [] []), page = Inl (JsError [] []),
      fetch = Threw (JsError [] [])\<rparr> = None
   \<and> onMessage GENERATE_SUMMARY
      \<lparr>active_tabs = [\<lparr>tab_id = 7, tab_title = None, tab_url = Some (str ''https://example.org/'')\<rparr>],
      stored_apiKey = Some [], stored_apiProvider = Some (str ''openrouter''),
      selection = Inr (Some (str '' some words '')),
      tabs_get = Inl (JsError [] []), page = Inl (JsError [] []),
      fetch = Threw (JsError [] [])\<rparr>
     = (Some \<lparr>summary = [], result_title = Some [], result_url = Some [], success = False,
              error = JStr (str ''API key not configured. Please add your API key in settings.'')\<rparr>, [])
   \<and> onMessage SUMMARIZE_SELECTION
      \<lparr>active_tabs = [\<lparr>tab_id = 7, tab_title = None, tab_url = Some (str ''https://example.org/'')\<rparr>],
      stored_apiKey = Some [], stored_apiProvider = Some (str ''openrouter''),
      selection = Inr (Some (str '' some words '')),
      tabs_get = Inl (JsError [] []), page = Inl (JsError [] []),
      fetch = Threw (JsError [] [])\<rparr>
     = (Some \<lparr>summary = [], result_title = Some (str ''Selected Text''),
              result_url = Some (str ''https://example.org/''), success = False,
              error = JStr (str ''API key not configured. Please add your API key in settings.'')\<rparr>, [])"
  (is "getApiKey ?w = None \<and> _")
proof -
  have k: "getApiKey ?w = None" by (simp add: getApiKey_def)
  have t: "trim (str '' some words '') \<noteq> []"
    by (simp add: trim_def is_space_def str_def)
  have a: "active_tabs ?w \<noteq> []" by simp
  have b: "active_tabs ?w = \<lparr>tab_id = 7, tab_title = None, tab_url = Some (str ''https://example.org/'')\<rparr> # []
           \<and> selection ?w = Inr (Some (str '' some words '')) \<and> trim (str '' some words '') \<noteq> []"
    using t by simp
  note g = missing_key_reported [OF k, where m = GENERATE_SUMMARY]
  note q = missing_key_reported [OF k, where m = SUMMARIZE_SELECTION
      and t = "\<lparr>tab_id = 7, tab_title = None, tab_url = Some (str ''https://example.org/'')\<rparr>"
      and ts = "[]" and sel = "str '' some words ''"]
  from g a have g1: "snd (onMessage GENERATE_SUMMARY ?w) = []"
    and g2: "fst (onMessage GENERATE_SUMMARY ?w) =
              Some \<lparr>summary = [], result_title = Some [], result_url = Some [], success = False,
                    error = not_configured\<rparr>"
    by blast+
  from q b have q1: "snd (onMessage SUMMARIZE_SELECTION ?w) = []"
    and q2: "fst (onMessage SUMMARIZE_SELECTION ?w) =
              Some \<lparr>summary = [],
                    result_title = Some (or_default (tab_title \<lparr>tab_id = 7, tab_title = None,
                       tab_url = Some (str ''https://example.org/'')\<rparr>) (str ''Selected Text'')),
                    result_url = tab_url \<lparr>tab_id = 7, tab_title = None,
                       tab_url = Some (str ''https://example.org/'')\<rparr>,
                    success = False, error = not_configured\<rparr>"
    by blast+
  from g1 g2 q1 q2 k show ?thesis
    by (simp only: prod_eq_iff fst_conv snd_conv) (simp add: or_default_def not_configured_def)
qed

end
